theory Spec2Isabelle
  imports Complex_Main
begin

section \<open>The news ticker and its news endpoint\<close>

text \<open>
  A shallow embedding of \<^verbatim>\<open>src/web/ticker.js\<close> (class \<^verbatim>\<open>NewsTicker\<close>) and of the
  \<^verbatim>\<open>/api/news\<close> handler of \<^verbatim>\<open>src/server/server.js\<close>.

  Conventions of the embedding.
  \<^item> A JavaScript string is a \<open>string\<close>; a \<open>char\<close> stands for one code unit in the
    range U+0000 to U+00FF.
  \<^item> Timestamps are epoch milliseconds, hence integers: \<open>int\<close>. \<^verbatim>\<open>Date.now()\<close> is
    read once per handler run and passed as the argument \<open>now\<close>.
  \<^item> Pixel positions and the scroll speed are JavaScript numbers, embedded as exact
    rationals; rounding of doubles is outside the embedding.
\<close>

subsection \<open>Headlines\<close>

record headline =
  source :: string
  title :: string
  url :: string
  ts :: int

subsection \<open>Number to string conversion\<close>

text \<open>
  A template literal \<^verbatim>\<open>`${minutes}m ago`\<close> converts the number to its decimal
  representation (for the integers below \<open>10^21\<close>, which covers every difference of two
  epoch timestamps).
\<close>

definition digit_char :: "nat \<Rightarrow> char" where
  "digit_char d = ''0123456789'' ! d"

fun digits :: "nat \<Rightarrow> string" where
  "digits n = (if n < 10 then [digit_char n] else digits (n div 10) @ [digit_char (n mod 10)])"

declare digits.simps [simp del]

definition number_to_string :: "int \<Rightarrow> string" where
  "number_to_string i = (if i < 0 then CHR ''-'' # digits (nat (- i)) else digits (nat i))"

subsection \<open>formatTimeAgo\<close>

text \<open>
  \<^verbatim>\<open>Math.floor(diff / 60000)\<close> on integers is the flooring division \<open>div\<close> of
  \<open>int\<close>.
\<close>

definition formatTimeAgo :: "int \<Rightarrow> int \<Rightarrow> string" where
  "formatTimeAgo now timestamp =
     (let diff = now - timestamp;
          minutes = diff div 60000;
          hours = diff div 3600000;
          days = diff div 86400000
      in if minutes < 1 then ''now''
         else if minutes < 60 then number_to_string minutes @ ''m ago''
         else if hours < 24 then number_to_string hours @ ''h ago''
         else number_to_string days @ ''d ago'')"

subsection \<open>Rendered headline elements\<close>

text \<open>
  \<^verbatim>\<open>sanitizeText\<close> assigns the text to \<^verbatim>\<open>textContent\<close> of a fresh element and reads
  \<^verbatim>\<open>innerHTML\<close> back: the browser serialises the text node, escaping the ampersand, the
  angle brackets and the no-break space.
\<close>

definition escape_char :: "char \<Rightarrow> string" where
  "escape_char c =
     (if c = CHR ''&'' then ''&amp;''
      else if c = CHR ''<'' then ''&lt;''
      else if c = CHR ''>'' then ''&gt;''
      else if c = CHR 0xA0 then ''&nbsp;''
      else [c])"

definition sanitizeText :: "string \<Rightarrow> string" where
  "sanitizeText str = concat (map escape_char str)"

text \<open>
  One \<^verbatim>\<open>div.news-ticker-item\<close>, as the four values interpolated into its template.
\<close>

record item =
  item_source :: string
  item_href :: string
  item_title :: string
  item_time :: string

definition render_item :: "int \<Rightarrow> headline \<Rightarrow> item" where
  "render_item now h =
     \<lparr>item_source = sanitizeText (source h),
      item_href = url h,
      item_title = sanitizeText (title h),
      item_time = formatTimeAgo now (ts h)\<rparr>"

subsection \<open>The service cycle\<close>

text \<open>The entries of \<^verbatim>\<open>this.serviceCycle\<close>; the emoji of an entry is never read.\<close>

record service_entry =
  service :: string
  label :: string

definition serviceCycle :: "service_entry list" where
  "serviceCycle =
     [\<lparr>service = ''sports'', label = ''Sports''\<rparr>,
      \<lparr>service = ''local'', label = ''Local''\<rparr>,
      \<lparr>service = ''news'', label = ''News''\<rparr>,
      \<lparr>service = ''weather'', label = ''Weather''\<rparr>,
      \<lparr>service = ''tweets'', label = ''Tweets''\<rparr>]"

subsection \<open>The state of a widget and of the browser around it\<close>

text \<open>
  The entry \<^verbatim>\<open>news-ticker-cache\<close> of \<^verbatim>\<open>localStorage\<close>, as \<^verbatim>\<open>loadFromCache\<close> sees it:
  the storage cannot be used (every access throws), there is no entry, the entry is not
  JSON (\<^verbatim>\<open>JSON.parse\<close> throws), or it is a snapshot with its headlines and its
  timestamp.
\<close>

datatype cache_entry =
  Unavailable
| NoEntry
| Corrupt
| Snapshot "headline list" int

text \<open>The text of the selector button: a service label, or the glyph shown while hidden.\<close>

datatype button_text = Label string | HiddenGlyph

text \<open>
  The record holds the fields of a \<^verbatim>\<open>NewsTicker\<close> instance, the part of the document it
  writes to, and the part of the browser it talks to. It describes an instance from the
  end of \<^verbatim>\<open>setupTicker\<close> on: \<^verbatim>\<open>this.container\<close>, \<^verbatim>\<open>this.ticker\<close>,
  \<^verbatim>\<open>this.tickerList\<close>, \<^verbatim>\<open>this.offlineBadge\<close> and \<^verbatim>\<open>this.serviceCycle\<close> refer to the
  nodes and the table created there and are never reassigned. The options
  \<^verbatim>\<open>target\<close>, \<^verbatim>\<open>gap\<close>, \<^verbatim>\<open>direction\<close> and \<^verbatim>\<open>fontCss\<close> only select and style nodes.

  \<^descr>[Instance fields] \<open>endpoint\<close> to \<open>currentServiceIndex\<close>, named as in the source
    (the first four are \<^verbatim>\<open>this.options\<close>).
  \<^descr>[Document] \<open>tickerList\<close>: the children of \<^verbatim>\<open>.news-ticker-list\<close>;
    \<open>offlineBadge\<close>: the badge has \<^verbatim>\<open>display: block\<close>; \<open>trackTransform\<close>: the
    \<^verbatim>\<open>translateX\<close> of the track; \<open>pausedClass\<close>: the container has class
    \<^verbatim>\<open>paused\<close>; \<open>attached\<close>: the container still holds the structure built by
    \<^verbatim>\<open>setupTicker\<close> (so \<^verbatim>\<open>querySelector\<close> finds its nodes); \<open>contentHidden\<close>:
    \<^verbatim>\<open>.news-ticker-content\<close> has class \<^verbatim>\<open>hidden\<close>; \<open>containerCleared\<close>: background
    and border of \<^verbatim>\<open>.news-ticker-container\<close> are cleared; \<open>buttonText\<close> and
    \<open>buttonBorder\<close>: text and highlighted border of the selector button.
  \<^descr>[Browser] \<open>cache\<close>: the \<^verbatim>\<open>localStorage\<close> entry; \<open>frames\<close>: the handles of the
    animation-frame callbacks that are scheduled and not yet run or cancelled;
    \<open>nextHandle\<close>: the handle the next \<^verbatim>\<open>requestAnimationFrame\<close> returns;
    \<open>refreshTimer\<close>: the interval registered by \<^verbatim>\<open>init\<close> is active; \<open>requests\<close>:
    the URLs passed to \<^verbatim>\<open>fetch\<close> so far.
\<close>

record ticker =
  endpoint :: string
  speed :: rat
  maxHeadlines :: nat
  pauseOnHover :: bool
  headlines :: "headline list"
  isPaused :: bool
  animationId :: "nat option"
  currentPosition :: rat
  lastUpdate :: int
  offlineMode :: bool
  currentService :: string
  currentServiceIndex :: nat
  tickerList :: "item list"
  offlineBadge :: bool
  trackTransform :: rat
  pausedClass :: bool
  attached :: bool
  contentHidden :: bool
  containerCleared :: bool
  buttonText :: button_text
  buttonBorder :: bool
  cache :: cache_entry
  frames :: "nat list"
  nextHandle :: nat
  refreshTimer :: bool
  requests :: "string list"

text \<open>
  A call that dereferences a missing node throws a \<^verbatim>\<open>TypeError\<close>; the assignments made
  before the throw stay. A completion carries the state in both cases.
\<close>

datatype js_error = TypeError

datatype completion = Returned ticker | Threw js_error ticker

fun state_after :: "completion \<Rightarrow> ticker" where
  "state_after (Returned s) = s"
| "state_after (Threw e s) = s"

subsection \<open>Cache\<close>

text \<open>
  \<^verbatim>\<open>saveToCache\<close>: \<^verbatim>\<open>setItem\<close> inside \<^verbatim>\<open>try\<close>; when the storage throws, the error is
  logged and nothing is written.
\<close>

definition saveToCache :: "int \<Rightarrow> ticker \<Rightarrow> ticker" where
  "saveToCache now s =
     (if cache s = Unavailable then s
      else s\<lparr>cache := Snapshot (headlines s) now\<rparr>)"

subsection \<open>renderHeadlines\<close>

text \<open>
  The guard \<^verbatim>\<open>!this.tickerList\<close> is false on every state of the record (the list node
  exists); the guard on the empty list is the first branch. The elements are appended
  once, then once more; then the snapshot is saved and the position reset.
\<close>

definition renderHeadlines :: "int \<Rightarrow> ticker \<Rightarrow> ticker" where
  "renderHeadlines now s =
     (if length (headlines s) = 0 then s
      else
        let headlineElements = map (render_item now) (headlines s);
            s1 = s\<lparr>tickerList := []\<rparr>;
            s2 = s1\<lparr>tickerList := tickerList s1 @ headlineElements\<rparr>;
            s3 = s2\<lparr>tickerList := tickerList s2 @ headlineElements\<rparr>;
            s4 = saveToCache now s3
        in s4\<lparr>currentPosition := 0\<rparr>)"

subsection \<open>loadFromCache\<close>

text \<open>
  Every failure inside the \<^verbatim>\<open>try\<close> (storage access, \<^verbatim>\<open>JSON.parse\<close>) is caught and
  leaves the state as it is, as does a missing entry.
\<close>

definition loadFromCache :: "int \<Rightarrow> ticker \<Rightarrow> ticker" where
  "loadFromCache now s =
     (case cache s of
        Snapshot cached_headlines timestamp \<Rightarrow>
          if now - timestamp < 3600000
          then renderHeadlines now (s\<lparr>headlines := cached_headlines\<rparr>)
          else s
      | _ \<Rightarrow> s)"

subsection \<open>loadHeadlines\<close>

text \<open>
  \<^verbatim>\<open>loadHeadlines\<close> is asynchronous. Its first part runs with the caller: it builds the
  URL from the service selected at that moment and calls \<^verbatim>\<open>fetch\<close>. Its second part
  runs when the fetch settles, on the state of that later moment.
\<close>

definition request_url :: "ticker \<Rightarrow> string" where
  "request_url s =
     (if currentService s \<noteq> [] \<and> currentService s \<noteq> ''news''
      then endpoint s @ ''?service='' @ currentService s
      else endpoint s)"

definition loadHeadlines_start :: "ticker \<Rightarrow> ticker" where
  "loadHeadlines_start s = s\<lparr>requests := requests s @ [request_url s]\<rparr>"

text \<open>
  How a fetch settles: the promise rejects (network error), or a response arrives with
  a status and a body; the body is the array of headlines, or \<open>None\<close> when
  \<^verbatim>\<open>response.json()\<close> rejects.
\<close>

datatype fetch_result =
  NetworkError
| Response nat "headline list option"

definition response_ok :: "nat \<Rightarrow> bool" where
  "response_ok status = (200 \<le> status \<and> status \<le> 299)"

text \<open>The headlines that reach line 170, if the \<^verbatim>\<open>try\<close> block gets that far.\<close>

definition fetched :: "fetch_result \<Rightarrow> headline list option" where
  "fetched r =
     (case r of
        NetworkError \<Rightarrow> None
      | Response status body \<Rightarrow> if response_ok status then body else None)"

definition loadHeadlines_settle :: "fetch_result \<Rightarrow> int \<Rightarrow> ticker \<Rightarrow> ticker" where
  "loadHeadlines_settle r now s =
     (case fetched r of
        Some hs \<Rightarrow>
          let s1 = s\<lparr>headlines := take (maxHeadlines s) hs\<rparr>;
              s2 = s1\<lparr>offlineMode := False\<rparr>;
              s3 = s2\<lparr>offlineBadge := False\<rparr>;
              s4 = renderHeadlines now s3
          in s4\<lparr>lastUpdate := now\<rparr>
      | None \<Rightarrow>
          let s1 = s\<lparr>offlineMode := True\<rparr>;
              s2 = s1\<lparr>offlineBadge := True\<rparr>
          in loadFromCache now s2)"

subsection \<open>Animation\<close>

text \<open>
  \<^verbatim>\<open>requestAnimationFrame\<close> schedules the callback and returns its handle;
  \<^verbatim>\<open>cancelAnimationFrame\<close> removes the scheduled callback with that handle.
\<close>

definition requestAnimationFrame :: "ticker \<Rightarrow> nat \<times> ticker" where
  "requestAnimationFrame s =
     (nextHandle s, s\<lparr>frames := frames s @ [nextHandle s], nextHandle := Suc (nextHandle s)\<rparr>)"

definition cancelAnimationFrame :: "nat \<Rightarrow> ticker \<Rightarrow> ticker" where
  "cancelAnimationFrame h s = s\<lparr>frames := removeAll h (frames s)\<rparr>"

text \<open>
  The closure \<^verbatim>\<open>animate\<close> of \<^verbatim>\<open>startAnimation\<close>: one step. The layout width
  \<^verbatim>\<open>this.tickerList.scrollWidth\<close> is what the browser reports at that step.
\<close>

definition animate :: "nat \<Rightarrow> ticker \<Rightarrow> ticker" where
  "animate scrollWidth s =
     (if isPaused s then
        (let (h, s1) = requestAnimationFrame s in s1\<lparr>animationId := Some h\<rparr>)
      else
        (let s1 = s\<lparr>currentPosition := currentPosition s - speed s / 60\<rparr>;
             tickerWidth = of_nat scrollWidth / 2;
             s2 = (if \<bar>currentPosition s1\<bar> \<ge> tickerWidth
                   then s1\<lparr>currentPosition := 0\<rparr> else s1);
             s3 = s2\<lparr>trackTransform := currentPosition s2\<rparr>;
             (h, s4) = requestAnimationFrame s3
         in s4\<lparr>animationId := Some h\<rparr>))"

text \<open>A handle is truthy unless it is \<^verbatim>\<open>null\<close> or 0.\<close>

definition truthy :: "nat option \<Rightarrow> bool" where
  "truthy a = (case a of None \<Rightarrow> False | Some h \<Rightarrow> h \<noteq> 0)"

definition startAnimation :: "nat \<Rightarrow> ticker \<Rightarrow> ticker" where
  "startAnimation scrollWidth s = (if truthy (animationId s) then s else animate scrollWidth s)"

text \<open>The browser runs the scheduled callback with handle \<open>h\<close>, once.\<close>

definition run_frame :: "nat \<Rightarrow> nat \<Rightarrow> ticker \<Rightarrow> ticker" where
  "run_frame h scrollWidth s =
     (if h \<in> set (frames s)
      then animate scrollWidth (s\<lparr>frames := removeAll h (frames s)\<rparr>)
      else s)"


definition pause :: "ticker \<Rightarrow> ticker" where
  "pause s = s\<lparr>isPaused := True, pausedClass := True\<rparr>"

definition resume :: "ticker \<Rightarrow> ticker" where
  "resume s = s\<lparr>isPaused := False, pausedClass := False\<rparr>"

definition setSpeed :: "rat \<Rightarrow> ticker \<Rightarrow> ticker" where
  "setSpeed v s = s\<lparr>speed := v\<rparr>"

subsection \<open>Visibility toggle and service selector\<close>

text \<open>
  \<^verbatim>\<open>toggleTickerVisibility\<close> looks its three nodes up in the container; once the
  container is emptied the lookups give \<^verbatim>\<open>null\<close> and reading \<^verbatim>\<open>classList\<close> throws.
  An index outside the table makes \<^verbatim>\<open>currentService.label\<close> throw.
\<close>

definition toggleTickerVisibility :: "ticker \<Rightarrow> completion" where
  "toggleTickerVisibility s =
     (if \<not> attached s then Threw TypeError s
      else if contentHidden s then
        (let s1 = s\<lparr>contentHidden := False, containerCleared := False\<rparr>
         in if currentServiceIndex s1 < length serviceCycle
            then Returned (s1\<lparr>buttonText := Label (label (serviceCycle ! currentServiceIndex s1)),
                               buttonBorder := False\<rparr>)
            else Threw TypeError s1)
      else
        Returned (s\<lparr>contentHidden := True, containerCleared := True,
                     buttonText := HiddenGlyph, buttonBorder := True\<rparr>))"

text \<open>
  \<^verbatim>\<open>cycleToNextService\<close> advances the index first; the index is below the length of
  the table, so the lookup succeeds. With the container emptied the button lookup gives
  \<^verbatim>\<open>null\<close> and the assignment to \<^verbatim>\<open>textContent\<close> throws.
\<close>

definition cycleToNextService :: "ticker \<Rightarrow> completion" where
  "cycleToNextService s =
     (let s1 = s\<lparr>currentServiceIndex := (currentServiceIndex s + 1) mod length serviceCycle\<rparr>;
          nextService = serviceCycle ! currentServiceIndex s1
      in if \<not> attached s1 then Threw TypeError s1
         else
           let s2 = s1\<lparr>buttonText := Label (label nextService)\<rparr>;
               s3 = s2\<lparr>currentService := service nextService\<rparr>
           in Returned (loadHeadlines_start s3))"

text \<open>The listeners of the selector button.\<close>

definition click :: "ticker \<Rightarrow> completion" where
  "click s =
     (if \<not> attached s then Threw TypeError s
      else if contentHidden s then toggleTickerVisibility s
      else cycleToNextService s)"

definition dblclick :: "ticker \<Rightarrow> completion" where
  "dblclick s = toggleTickerVisibility s"

text \<open>The listeners of the container, registered when \<^verbatim>\<open>pauseOnHover\<close> is set.\<close>

definition mouseenter :: "ticker \<Rightarrow> ticker" where
  "mouseenter s = (if pauseOnHover s then pause s else s)"

definition mouseleave :: "ticker \<Rightarrow> ticker" where
  "mouseleave s = (if pauseOnHover s then resume s else s)"

subsection \<open>Construction and destruction\<close>

text \<open>
  The options as passed to the constructor; \<^verbatim>\<open>x || d\<close> takes the default for a missing,
  empty or zero value, and \<^verbatim>\<open>pauseOnHover\<close> is on unless it is \<^verbatim>\<open>false\<close>.
\<close>

record options =
  opt_endpoint :: "string option"
  opt_speed :: "rat option"
  opt_maxHeadlines :: "nat option"
  opt_pauseOnHover :: "bool option"

definition or_string :: "string option \<Rightarrow> string \<Rightarrow> string" where
  "or_string x d = (case x of None \<Rightarrow> d | Some v \<Rightarrow> if v = [] then d else v)"

definition or_number :: "'a::zero option \<Rightarrow> 'a \<Rightarrow> 'a" where
  "or_number x d = (case x of None \<Rightarrow> d | Some v \<Rightarrow> if v = 0 then d else v)"

text \<open>
  The instance at the end of \<^verbatim>\<open>setupTicker\<close>, for a target that exists: the fields
  assigned by the constructor (lines 4 to 23), the nodes created by \<^verbatim>\<open>setupTicker\<close>
  (empty list, badge not displayed, button reading \<^verbatim>\<open>Sports\<close>) and the index and
  service assigned by \<^verbatim>\<open>setupServiceSelector\<close>, which replace the \<^verbatim>\<open>news\<close> of the
  constructor. The browser supplies the cache entry and the next frame handle.
\<close>

definition constructed :: "options \<Rightarrow> cache_entry \<Rightarrow> nat \<Rightarrow> ticker" where
  "constructed opts stored handle =
     \<lparr>endpoint = or_string (opt_endpoint opts) ''/api/news'',
      speed = or_number (opt_speed opts) 60,
      maxHeadlines = or_number (opt_maxHeadlines opts) 50,
      pauseOnHover = (opt_pauseOnHover opts \<noteq> Some False),
      headlines = [],
      isPaused = False,
      animationId = None,
      currentPosition = 0,
      lastUpdate = 0,
      offlineMode = False,
      currentService = ''sports'',
      currentServiceIndex = 0,
      tickerList = [],
      offlineBadge = False,
      trackTransform = 0,
      pausedClass = False,
      attached = True,
      contentHidden = False,
      containerCleared = False,
      buttonText = Label ''Sports'',
      buttonBorder = False,
      cache = stored,
      frames = [],
      nextHandle = handle,
      refreshTimer = False,
      requests = []\<rparr>"

text \<open>
  \<^verbatim>\<open>init\<close> with no font to load runs to its end inside the constructor: after
  \<^verbatim>\<open>setupTicker\<close> come the first \<^verbatim>\<open>loadHeadlines\<close>, the start of the animation (with
  the width the browser reports for the empty list) and the registration of the
  5-minute interval, whose handle is dropped.
\<close>

definition setInterval :: "ticker \<Rightarrow> ticker" where
  "setInterval s = s\<lparr>refreshTimer := True\<rparr>"

definition init :: "options \<Rightarrow> cache_entry \<Rightarrow> nat \<Rightarrow> nat \<Rightarrow> ticker" where
  "init opts stored handle scrollWidth =
     setInterval (startAnimation scrollWidth (loadHeadlines_start (constructed opts stored handle)))"

text \<open>The browser fires the interval: the callback calls \<^verbatim>\<open>loadHeadlines\<close>.\<close>

definition interval_fires :: "ticker \<Rightarrow> ticker" where
  "interval_fires s = (if refreshTimer s then loadHeadlines_start s else s)"

text \<open>
  \<^verbatim>\<open>destroy\<close> cancels the frame whose handle is in \<^verbatim>\<open>animationId\<close> (when that is
  not \<^verbatim>\<open>null\<close> or 0) and empties the container; the guard on \<^verbatim>\<open>this.container\<close>
  holds on every state of the record. It does nothing else.
\<close>

definition destroy :: "ticker \<Rightarrow> ticker" where
  "destroy s =
     (let s1 = (case animationId s of
                  None \<Rightarrow> s
                | Some h \<Rightarrow> if h \<noteq> 0 then cancelAnimationFrame h s else s)
      in s1\<lparr>attached := False\<rparr>)"

definition refresh :: "ticker \<Rightarrow> ticker" where
  "refresh s = loadHeadlines_start s"

text \<open>
  The animation loop is scheduled: \<^verbatim>\<open>animationId\<close> holds the handle of the one frame
  callback that is pending. \<^verbatim>\<open>startAnimation\<close> establishes this and every step keeps it.
\<close>

definition loop_scheduled :: "ticker \<Rightarrow> bool" where
  "loop_scheduled s =
     (case animationId s of
        None \<Rightarrow> False
      | Some h \<Rightarrow> h \<noteq> 0 \<and> frames s = [h] \<and> h < nextHandle s)"


subsection \<open>Events\<close>

text \<open>
  What happens to a widget, one event at a time: the browser runs a frame callback,
  fires the interval, settles a fetch or delivers a user event; some script writes the
  cache entry; the page calls a method of the widget. A listener or method that throws
  ends the event with the state it reached.
\<close>

datatype event =
    AnimationFrame nat nat
  | IntervalFires
  | FetchSettles fetch_result int
  | Click
  | DblClick
  | MouseEnter
  | MouseLeave
  | StorageWritten cache_entry
  | CallDestroy
  | CallRefresh
  | CallSetSpeed rat
  | CallStartAnimation nat
  | CallPause
  | CallResume
  | CallToggleTickerVisibility
  | CallCycleToNextService

fun dispatch :: "event \<Rightarrow> ticker \<Rightarrow> ticker" where
  "dispatch (AnimationFrame h scrollWidth) s = run_frame h scrollWidth s"
| "dispatch IntervalFires s = interval_fires s"
| "dispatch (FetchSettles r now) s = loadHeadlines_settle r now s"
| "dispatch Click s = state_after (click s)"
| "dispatch DblClick s = state_after (dblclick s)"
| "dispatch MouseEnter s = mouseenter s"
| "dispatch MouseLeave s = mouseleave s"
| "dispatch (StorageWritten entry) s = s\<lparr>cache := entry\<rparr>"
| "dispatch CallDestroy s = destroy s"
| "dispatch CallRefresh s = refresh s"
| "dispatch (CallSetSpeed v) s = setSpeed v s"
| "dispatch (CallStartAnimation scrollWidth) s = startAnimation scrollWidth s"
| "dispatch CallPause s = pause s"
| "dispatch CallResume s = resume s"
| "dispatch CallToggleTickerVisibility s = state_after (toggleTickerVisibility s)"
| "dispatch CallCycleToNextService s = state_after (cycleToNextService s)"

fun run :: "event list \<Rightarrow> ticker \<Rightarrow> ticker" where
  "run [] s = s"
| "run (e # es) s = run es (dispatch e s)"

text \<open>
  The events of the widget and of the browser on its behalf: every event but a write to
  the cache entry by another script.
\<close>

fun own_event :: "event \<Rightarrow> bool" where
  "own_event (StorageWritten entry) = False"
| "own_event e = True"

text \<open>
  Three conditions that the events keep. The selector is consistent: the index is
  inside the table and, while the structure is in the document, \<open>currentService\<close> is
  the service of the entry at the index. The loop is stopped: no frame is pending and
  \<open>animationId\<close> still holds a handle, so that \<open>startAnimation\<close> returns at once. The
  snapshot, if there is one, holds at least one headline.
\<close>

definition selector_consistent :: "ticker \<Rightarrow> bool" where
  "selector_consistent s =
     (currentServiceIndex s < length serviceCycle
      \<and> (attached s \<longrightarrow> currentService s = service (serviceCycle ! currentServiceIndex s)))"

definition stopped :: "ticker \<Rightarrow> bool" where
  "stopped s = (frames s = [] \<and> truthy (animationId s))"

definition snapshot_nonempty :: "ticker \<Rightarrow> bool" where
  "snapshot_nonempty s = (case cache s of Snapshot hs t \<Rightarrow> hs \<noteq> [] | _ \<Rightarrow> True)"

subsection \<open>The news endpoint of the server\<close>

text \<open>
  \<^verbatim>\<open>toLowerCase\<close> maps each upper-case letter of the range U+0000 to U+00FF to its
  lower-case letter, 32 code points further; \<^verbatim>\<open>includes\<close> tests for a contiguous
  occurrence at some position.
\<close>

definition toLowerCase_unit :: "char \<Rightarrow> char" where
  "toLowerCase_unit c =
     (let n = (of_char c :: nat)
      in if (65 \<le> n \<and> n \<le> 90) \<or> (192 \<le> n \<and> n \<le> 222 \<and> n \<noteq> 215)
         then char_of (n + 32) else c)"

definition toLowerCase :: "string \<Rightarrow> string" where
  "toLowerCase str = map toLowerCase_unit str"

definition string_includes :: "string \<Rightarrow> string \<Rightarrow> bool" where
  "string_includes str search =
     list_ex (\<lambda>i. take (length search) (drop i str) = search) [0..<Suc (length str)]"

text \<open>
  The switch on the \<^verbatim>\<open>service\<close> parameter, and the two loads of lines 52 to 58. The
  parser (\<^verbatim>\<open>NewsSourceParser\<close>) is a parameter of the handler: a load gives the
  headlines of a file, or \<open>None\<close> when it throws.
\<close>

definition source_file :: "string \<Rightarrow> string" where
  "source_file srv =
     (if srv = ''local'' then ''news-local.txt''
      else if srv = ''sports'' then ''news-sports.txt''
      else if srv = ''weather'' then ''news-weather.txt''
      else if srv = ''tweets'' then ''news-tweets.txt''
      else ''news.txt'')"

definition select_source ::
  "(string \<Rightarrow> headline list option) \<Rightarrow> headline list option \<Rightarrow> string option
     \<Rightarrow> headline list option" where
  "select_source loadHeadlinesFromSource loadHeadlines service_param =
     (let srv = or_string service_param ''news''
      in case loadHeadlinesFromSource (source_file srv) of
           Some hs \<Rightarrow> Some hs
         | None \<Rightarrow> loadHeadlines)"

text \<open>The response: the JSON array, or status 500 when both loads throw.\<close>

datatype http_response = Json "headline list" | Status500

definition news_handler ::
  "(string \<Rightarrow> headline list option) \<Rightarrow> headline list option \<Rightarrow> string option \<Rightarrow> string option
     \<Rightarrow> http_response" where
  "news_handler loadHeadlinesFromSource loadHeadlines service_param q_param =
     (case select_source loadHeadlinesFromSource loadHeadlines service_param of
        None \<Rightarrow> Status500
      | Some hs \<Rightarrow>
          (case q_param of
             None \<Rightarrow> Json hs
           | Some q \<Rightarrow>
               if q = [] then Json hs
               else
                 let query = toLowerCase q
                 in Json (filter (\<lambda>h. string_includes (toLowerCase (title h)) query
                                          \<or> string_includes (toLowerCase (source h)) query) hs)))"

text \<open>
  What the description of the endpoint calls a case-insensitive substring match: at some
  position of \<open>str\<close> there is a window as long as \<open>q\<close> whose letters are those of \<open>q\<close>
  up to case.
\<close>

definition same_letter :: "char \<Rightarrow> char \<Rightarrow> bool" where
  "same_letter c d = (toLowerCase_unit c = toLowerCase_unit d)"

definition ci_substring :: "string \<Rightarrow> string \<Rightarrow> bool" where
  "ci_substring q str =
     list_ex (\<lambda>i. list_all2 same_letter (take (length q) (drop i str)) q) [0..<Suc (length str)]"

subsection \<open>Sample widgets\<close>

text \<open>
  A widget built with default options on a browser without a cache entry; the same
  widget after the endpoint answered with one headline; and after it answered, five
  minutes later, with an empty array.
\<close>

definition sample_headline :: headline where
  "sample_headline = \<lparr>source = ''A'', title = ''T1'', url = ''u1'', ts = 1700000000000\<rparr>"

definition default_options :: options where
  "default_options =
     \<lparr>opt_endpoint = None, opt_speed = None, opt_maxHeadlines = None, opt_pauseOnHover = None\<rparr>"

definition fresh_widget :: ticker where
  "fresh_widget = init default_options NoEntry 1 0"

definition showing_widget :: ticker where
  "showing_widget =
     loadHeadlines_settle (Response 200 (Some [sample_headline])) 1700000000000 fresh_widget"

definition emptied_widget :: ticker where
  "emptied_widget = loadHeadlines_settle (Response 200 (Some [])) 1700000300000 showing_widget"

section \<open>Properties\<close>

subsection \<open>Relative-age labels\<close>

lemma digits_small: "n < 10 \<Longrightarrow> digits n = [digit_char n]"
  by (simp add: digits.simps)

lemma number_to_string_1: "number_to_string 1 = ''1''"
  by (simp add: number_to_string_def digits_small digit_char_def)

lemma number_to_string_2: "number_to_string 2 = ''2''"
  by (simp add: number_to_string_def digits_small digit_char_def)

text \<open>
  Claim C6. For every timestamp \<open>t\<close> not after \<open>now\<close>, \<open>formatTimeAgo\<close> returns
  \<open>now\<close> when less than a minute has passed, the whole minutes followed by \<open>m ago\<close>
  when less than 60 minutes have passed, the whole hours followed by \<open>h ago\<close> when less
  than 24 hours have passed, and the whole days followed by \<open>d ago\<close> otherwise. In
  particular the ages 0, 90000, 7200000 and 172800000 milliseconds give \<open>now\<close>,
  \<open>1m ago\<close>, \<open>2h ago\<close> and \<open>2d ago\<close>.
\<close>

theorem formatTimeAgo_thresholds:
  "t \<le> now \<Longrightarrow>
     formatTimeAgo now t =
       (if now - t < 60000 then ''now''
        else if now - t < 60 * 60000 then number_to_string ((now - t) div 60000) @ ''m ago''
        else if now - t < 24 * 3600000 then number_to_string ((now - t) div 3600000) @ ''h ago''
        else number_to_string ((now - t) div 86400000) @ ''d ago'')
     \<and> formatTimeAgo now now = ''now''
     \<and> formatTimeAgo now (now - 90000) = ''1m ago''
     \<and> formatTimeAgo now (now - 7200000) = ''2h ago''
     \<and> formatTimeAgo now (now - 172800000) = ''2d ago''"
proof -
  assume le: "t \<le> now"
  let ?d = "now - t"
  have d0: "0 \<le> ?d" using le by simp
  have m: "(?d div 60000 < 1) = (?d < 60000)" using d0 by linarith
  have m60: "(?d div 60000 < 60) = (?d < 60 * 60000)" by linarith
  have h24: "(?d div 3600000 < 24) = (?d < 24 * 3600000)" by linarith
  have general: "formatTimeAgo now t =
       (if now - t < 60000 then ''now''
        else if now - t < 60 * 60000 then number_to_string ((now - t) div 60000) @ ''m ago''
        else if now - t < 24 * 3600000 then number_to_string ((now - t) div 3600000) @ ''h ago''
        else number_to_string ((now - t) div 86400000) @ ''d ago'')"
    unfolding formatTimeAgo_def Let_def m m60 h24 by simp
  have i0: "formatTimeAgo now now = ''now''"
    by (simp add: formatTimeAgo_def)
  have i1: "formatTimeAgo now (now - 90000) = ''1m ago''"
    by (simp add: formatTimeAgo_def number_to_string_1)
  have i2: "formatTimeAgo now (now - 7200000) = ''2h ago''"
    by (simp add: formatTimeAgo_def number_to_string_2)
  have i3: "formatTimeAgo now (now - 172800000) = ''2d ago''"
    by (simp add: formatTimeAgo_def number_to_string_2)
  from general i0 i1 i2 i3 show ?thesis by blast
qed

theorem formatTimeAgo_thresholds_witness:
  "(1700000000000::int) \<le> 1700000300000
   \<and> formatTimeAgo 1700000300000 1700000000000 = ''5m ago''
   \<and> formatTimeAgo 1700000300000 (1700000300000 - 90000) = ''1m ago''"
  using formatTimeAgo_thresholds [of 1700000000000 1700000300000]
  by (simp add: number_to_string_def digits_small digit_char_def)

subsection \<open>Rendering\<close>

lemma renderHeadlines_empty: "headlines s = [] \<Longrightarrow> renderHeadlines now s = s"
  by (simp add: renderHeadlines_def)

lemma renderHeadlines_nonempty:
  "headlines s \<noteq> [] \<Longrightarrow>
     tickerList (renderHeadlines now s)
       = map (render_item now) (headlines s) @ map (render_item now) (headlines s)"
  by (simp add: renderHeadlines_def saveToCache_def Let_def)

lemma renderHeadlines_headlines: "headlines (renderHeadlines now s) = headlines s"
  by (simp add: renderHeadlines_def saveToCache_def Let_def)


text \<open>
  Claim C3, as stated: for every headlines list of length \<open>N\<close> with \<open>N\<close> at most
  \<open>maxHeadlines\<close>, \<open>renderHeadlines\<close> produces exactly \<open>2N\<close> rendered items. It fails
  for \<open>N = 0\<close>: on the widget that showed one headline and then received an empty array,
  the two items rendered before stay in the list.
\<close>

theorem renderHeadlines_empty_counterexample:
  "headlines emptied_widget = []
   \<and> length (headlines emptied_widget) \<le> maxHeadlines emptied_widget
   \<and> length (tickerList (renderHeadlines 1700000300000 emptied_widget)) = 2
   \<and> length (tickerList (renderHeadlines 1700000300000 emptied_widget))
        \<noteq> 2 * length (headlines emptied_widget)"
  by code_simp

text \<open>
  Claim C3, amended. For every headlines list of length \<open>N\<close> with \<open>1 \<le> N\<close> and \<open>N\<close> at
  most \<open>maxHeadlines\<close>, \<open>renderHeadlines\<close> produces exactly \<open>2N\<close> rendered items, the
  full sequence twice in order; for \<open>N = 0\<close> it leaves the rendered items as they are.
  For every fetched list longer than \<open>maxHeadlines\<close>, \<open>headlines\<close> is truncated to
  exactly the first \<open>maxHeadlines\<close> records, and these are what is rendered.
\<close>

theorem renderHeadlines_duplicates:
  "(1 \<le> length (headlines s) \<and> length (headlines s) \<le> maxHeadlines s \<longrightarrow>
      tickerList (renderHeadlines now s)
        = map (render_item now) (headlines s) @ map (render_item now) (headlines s)
      \<and> length (tickerList (renderHeadlines now s)) = 2 * length (headlines s))
   \<and> (length (headlines s) = 0 \<longrightarrow> tickerList (renderHeadlines now s) = tickerList s)
   \<and> (fetched r = Some hs \<and> maxHeadlines s < length hs \<longrightarrow>
        headlines (loadHeadlines_settle r now s) = take (maxHeadlines s) hs
        \<and> length (headlines (loadHeadlines_settle r now s)) = maxHeadlines s
        \<and> (0 < maxHeadlines s \<longrightarrow>
             tickerList (loadHeadlines_settle r now s)
               = map (render_item now) (take (maxHeadlines s) hs)
                 @ map (render_item now) (take (maxHeadlines s) hs)))"
proof -
  have a: "1 \<le> length (headlines s) \<Longrightarrow>
      tickerList (renderHeadlines now s)
        = map (render_item now) (headlines s) @ map (render_item now) (headlines s)
      \<and> length (tickerList (renderHeadlines now s)) = 2 * length (headlines s)"
  proof -
    assume "1 \<le> length (headlines s)"
    then have ne: "headlines s \<noteq> []" by auto
    show ?thesis by (simp add: renderHeadlines_nonempty [OF ne])
  qed
  have b: "length (headlines s) = 0 \<Longrightarrow> tickerList (renderHeadlines now s) = tickerList s"
    by (simp add: renderHeadlines_empty)
  have c: "fetched r = Some hs \<Longrightarrow> maxHeadlines s < length hs \<Longrightarrow>
      headlines (loadHeadlines_settle r now s) = take (maxHeadlines s) hs
      \<and> length (headlines (loadHeadlines_settle r now s)) = maxHeadlines s
      \<and> (0 < maxHeadlines s \<longrightarrow>
           tickerList (loadHeadlines_settle r now s)
             = map (render_item now) (take (maxHeadlines s) hs)
               @ map (render_item now) (take (maxHeadlines s) hs))"
  proof -
    assume f: "fetched r = Some hs" and lt: "maxHeadlines s < length hs"
    let ?s3 = "s\<lparr>headlines := take (maxHeadlines s) hs, offlineMode := False,
                   offlineBadge := False\<rparr>"
    have settle: "loadHeadlines_settle r now s = (renderHeadlines now ?s3)\<lparr>lastUpdate := now\<rparr>"
      using f by (simp add: loadHeadlines_settle_def)
    have "0 < maxHeadlines s \<Longrightarrow> headlines ?s3 \<noteq> []" using lt by auto
    then show ?thesis
      using lt by (simp add: settle renderHeadlines_headlines renderHeadlines_nonempty)
  qed
  from a b c show ?thesis by blast
qed

theorem renderHeadlines_duplicates_witness:
  "1 \<le> length (headlines showing_widget)
   \<and> length (headlines showing_widget) \<le> maxHeadlines showing_widget
   \<and> length (tickerList (renderHeadlines 1700000090000 showing_widget)) = 2
   \<and> tickerList (renderHeadlines 1700000090000 showing_widget)
       = [\<lparr>item_source = ''A'', item_href = ''u1'', item_title = ''T1'', item_time = ''1m ago''\<rparr>,
          \<lparr>item_source = ''A'', item_href = ''u1'', item_title = ''T1'', item_time = ''1m ago''\<rparr>]
   \<and> fetched (Response 200 (Some [sample_headline, sample_headline, sample_headline]))
       = Some [sample_headline, sample_headline, sample_headline]
   \<and> maxHeadlines (showing_widget\<lparr>maxHeadlines := 2\<rparr>)
       < length [sample_headline, sample_headline, sample_headline]
   \<and> headlines (loadHeadlines_settle
                   (Response 200 (Some [sample_headline, sample_headline, sample_headline]))
                   1700000090000 (showing_widget\<lparr>maxHeadlines := 2\<rparr>))
       = [sample_headline, sample_headline]
   \<and> length (tickerList (loadHeadlines_settle
                   (Response 200 (Some [sample_headline, sample_headline, sample_headline]))
                   1700000090000 (showing_widget\<lparr>maxHeadlines := 2\<rparr>))) = 4"
proof -
  let ?r = "Response 200 (Some [sample_headline, sample_headline, sample_headline])"
  have h: "headlines showing_widget = [sample_headline]" by code_simp
  have m: "maxHeadlines showing_widget = 50" by code_simp
  have f: "fetched ?r = Some [sample_headline, sample_headline, sample_headline]" by code_simp
  have i: "render_item 1700000090000 sample_headline
             = \<lparr>item_source = ''A'', item_href = ''u1'', item_title = ''T1'',
                item_time = ''1m ago''\<rparr>"
    by code_simp
  from renderHeadlines_duplicates [where s = showing_widget and now = 1700000090000]
       renderHeadlines_duplicates
         [where s = "showing_widget\<lparr>maxHeadlines := 2\<rparr>" and now = 1700000090000
            and r = ?r and hs = "[sample_headline, sample_headline, sample_headline]"]
  show ?thesis
    by (simp add: h m f i)
qed

text \<open>
  Claim C10. When \<open>headlines\<close> is empty, \<open>renderHeadlines\<close> changes nothing at all; in
  particular, after a successful fetch that returns an empty array the items rendered
  before stay, the position is not reset and no snapshot is written.
\<close>

theorem renderHeadlines_empty_noop:
  "(headlines s = [] \<longrightarrow> renderHeadlines now s = s)
   \<and> (fetched r = Some [] \<longrightarrow>
        tickerList (loadHeadlines_settle r now s) = tickerList s
        \<and> currentPosition (loadHeadlines_settle r now s) = currentPosition s
        \<and> cache (loadHeadlines_settle r now s) = cache s)"
  by (simp add: renderHeadlines_def loadHeadlines_settle_def)

theorem renderHeadlines_empty_noop_witness:
  "headlines emptied_widget = []
   \<and> renderHeadlines 1700000400000 emptied_widget = emptied_widget
   \<and> length (tickerList emptied_widget) = 2
   \<and> fetched (Response 200 (Some [])) = Some []
   \<and> tickerList (loadHeadlines_settle (Response 200 (Some [])) 1700000300000
                    (showing_widget\<lparr>currentPosition := - 30\<rparr>))
       = tickerList showing_widget
   \<and> currentPosition (loadHeadlines_settle (Response 200 (Some [])) 1700000300000
                         (showing_widget\<lparr>currentPosition := - 30\<rparr>)) = - 30
   \<and> cache (loadHeadlines_settle (Response 200 (Some [])) 1700000300000
               (showing_widget\<lparr>currentPosition := - 30\<rparr>))
       = Snapshot [sample_headline] 1700000000000"
proof -
  have h: "headlines emptied_widget = []" by code_simp
  have l: "length (tickerList emptied_widget) = 2" by code_simp
  have f: "fetched (Response 200 (Some [])) = Some []" by code_simp
  have c: "cache showing_widget = Snapshot [sample_headline] 1700000000000" by code_simp
  from renderHeadlines_empty_noop [of emptied_widget 1700000400000 "Response 200 (Some [])"]
       renderHeadlines_empty_noop
         [of "showing_widget\<lparr>currentPosition := - 30\<rparr>" 1700000300000
            "Response 200 (Some [])"]
  show ?thesis
    by (simp add: h l f c)
qed

subsection \<open>Fetch failure and the cache\<close>




subsection \<open>Service selector\<close>

lemma length_serviceCycle: "length serviceCycle = 5"
  by (simp add: serviceCycle_def)

lemma cycle_index:
  "currentServiceIndex (state_after (cycleToNextService s)) = (currentServiceIndex s + 1) mod 5"
  by (simp add: cycleToNextService_def Let_def length_serviceCycle loadHeadlines_start_def)

lemma cycle_attached: "attached (state_after (cycleToNextService s)) = attached s"
  by (simp add: cycleToNextService_def Let_def loadHeadlines_start_def)

lemma cycle_contentHidden: "contentHidden (state_after (cycleToNextService s)) = contentHidden s"
  by (simp add: cycleToNextService_def Let_def loadHeadlines_start_def)

lemma cycle_service:
  "currentService (state_after (cycleToNextService s)) =
     (if attached s then service (serviceCycle ! ((currentServiceIndex s + 1) mod 5))
      else currentService s)"
  by (simp add: cycleToNextService_def Let_def length_serviceCycle loadHeadlines_start_def)

lemma five_advances:
  "i < 5 \<Longrightarrow> (((((i + 1) mod 5 + 1) mod 5 + 1) mod 5 + 1) mod 5 + 1) mod 5 = (i::nat)"
  by presburger

text \<open>While the content is shown, a click on the selector is the advance.\<close>

lemma click_visible: "attached s \<Longrightarrow> \<not> contentHidden s \<Longrightarrow> click s = cycleToNextService s"
  by (simp add: click_def)

lemma clicks_visible:
  "attached s \<Longrightarrow> \<not> contentHidden s \<Longrightarrow>
     ((\<lambda>x. state_after (click x)) ^^ n) s = ((\<lambda>x. state_after (cycleToNextService x)) ^^ n) s
     \<and> attached (((\<lambda>x. state_after (cycleToNextService x)) ^^ n) s)
     \<and> \<not> contentHidden (((\<lambda>x. state_after (cycleToNextService x)) ^^ n) s)"
  by (induction n) (simp_all add: click_visible cycle_attached cycle_contentHidden)

text \<open>
  Claim C4. From every index \<open>i\<close> of the cycle of five services (with the service
  identifier of entry \<open>i\<close> selected, as the events keep it), one advance leads to index
  \<open>(i + 1) mod 5\<close>, and five advances lead back to index \<open>i\<close> and to the service
  identifier the widget started from; five clicks on the selector of a widget that shows
  its content are these five advances.
\<close>

theorem service_cycle_closure:
  "i < 5 \<Longrightarrow> currentServiceIndex s = i \<Longrightarrow>
   (attached s \<longrightarrow> currentService s = service (serviceCycle ! i)) \<Longrightarrow>
     currentServiceIndex (state_after (cycleToNextService s)) = (i + 1) mod 5
     \<and> currentServiceIndex (((\<lambda>x. state_after (cycleToNextService x)) ^^ 5) s) = i
     \<and> currentService (((\<lambda>x. state_after (cycleToNextService x)) ^^ 5) s) = currentService s
     \<and> (attached s \<and> \<not> contentHidden s \<longrightarrow>
          currentServiceIndex (((\<lambda>x. state_after (click x)) ^^ 5) s) = i
          \<and> currentService (((\<lambda>x. state_after (click x)) ^^ 5) s) = currentService s)"
proof -
  assume i: "i < 5" and idx: "currentServiceIndex s = i"
    and svc: "attached s \<longrightarrow> currentService s = service (serviceCycle ! i)"
  let ?f = "\<lambda>x. state_after (cycleToNextService x)"
  have five: "(?f ^^ 5) s = ?f (?f (?f (?f (?f s))))"
    by (simp add: eval_nat_numeral)
  have att: "attached (?f (?f (?f (?f s)))) = attached s"
    by (simp add: cycle_attached)
  have i5: "currentServiceIndex ((?f ^^ 5) s) = i"
    using i idx by (simp only: five cycle_index five_advances)
  have s5: "currentService ((?f ^^ 5) s) = currentService s"
  proof (cases "attached s")
    case True
    have "currentService (?f (?f (?f (?f (?f s))))) =
            service (serviceCycle ! ((currentServiceIndex (?f (?f (?f (?f s)))) + 1) mod 5))"
      using True att by (simp only: cycle_service if_True)
    also have "(currentServiceIndex (?f (?f (?f (?f s)))) + 1) mod 5 = i"
      using i idx by (simp only: cycle_index five_advances)
    finally show ?thesis using True svc by (simp add: five)
  next
    case False
    then show ?thesis
      by (simp add: five cycle_service cycle_attached)
  qed
  have c5: "attached s \<and> \<not> contentHidden s \<longrightarrow>
          currentServiceIndex (((\<lambda>x. state_after (click x)) ^^ 5) s) = i
          \<and> currentService (((\<lambda>x. state_after (click x)) ^^ 5) s) = currentService s"
    using i5 s5 clicks_visible [of s 5] by simp
  from i5 s5 c5 idx show ?thesis by (simp add: cycle_index)
qed

theorem service_cycle_closure_witness:
  "(3::nat) < 5
   \<and> currentServiceIndex (fresh_widget\<lparr>currentServiceIndex := 3, currentService := ''weather''\<rparr>) = 3
   \<and> ''weather'' = service (serviceCycle ! 3)
   \<and> currentServiceIndex (state_after (cycleToNextService
        (fresh_widget\<lparr>currentServiceIndex := 3, currentService := ''weather''\<rparr>))) = 4
   \<and> currentServiceIndex (((\<lambda>x. state_after (cycleToNextService x)) ^^ 5)
        (fresh_widget\<lparr>currentServiceIndex := 3, currentService := ''weather''\<rparr>)) = 3
   \<and> currentService (((\<lambda>x. state_after (cycleToNextService x)) ^^ 5)
        (fresh_widget\<lparr>currentServiceIndex := 3, currentService := ''weather''\<rparr>)) = ''weather''
   \<and> currentServiceIndex (((\<lambda>x. state_after (click x)) ^^ 5)
        (fresh_widget\<lparr>currentServiceIndex := 3, currentService := ''weather''\<rparr>)) = 3"
proof -
  let ?s = "fresh_widget\<lparr>currentServiceIndex := 3, currentService := ''weather''\<rparr>"
  have a: "(3::nat) < 5" by simp
  have b: "currentServiceIndex ?s = 3" by simp
  have c: "attached ?s \<longrightarrow> currentService ?s = service (serviceCycle ! 3)"
    by (simp add: serviceCycle_def)
  have d: "attached fresh_widget" by code_simp
  have e: "\<not> contentHidden fresh_widget" by code_simp
  from service_cycle_closure [OF a b c] show ?thesis
    by (simp add: serviceCycle_def d e)
qed



text \<open>
  A browser delivers a double click as two \<^verbatim>\<open>click\<close> events followed by one
  \<^verbatim>\<open>dblclick\<close> event. The two clicks are single activations of their own: on a shown
  widget they advance the service twice before the double activation hides the content.
\<close>

lemma double_click_gesture:
  "attached s \<Longrightarrow>
     currentServiceIndex (run [Click, Click, DblClick] s) =
       (if contentHidden s then (currentServiceIndex s + 1) mod 5
        else (currentServiceIndex s + 2) mod 5)
     \<and> contentHidden (run [Click, Click, DblClick] s)"
  by (simp add: click_def dblclick_def toggleTickerVisibility_def cycleToNextService_def
        loadHeadlines_start_def Let_def length_serviceCycle mod_simps)

subsection \<open>Visibility toggle\<close>

text \<open>
  Claim C8. On a widget whose structure is in the document, every call of
  \<open>toggleTickerVisibility\<close> flips the visibility bit and leaves the headlines, the
  service index and service, the pause flag, the offline flag, the position, the
  rendered items and the animation loop (its handle and its pending frame) as they
  are; the next step of the loop moves the position as it would have without the toggle.
\<close>

theorem toggle_flips_one_bit:
  "attached s \<Longrightarrow>
     contentHidden (state_after (toggleTickerVisibility s)) = (\<not> contentHidden s)
     \<and> headlines (state_after (toggleTickerVisibility s)) = headlines s
     \<and> currentServiceIndex (state_after (toggleTickerVisibility s)) = currentServiceIndex s
     \<and> currentService (state_after (toggleTickerVisibility s)) = currentService s
     \<and> isPaused (state_after (toggleTickerVisibility s)) = isPaused s
     \<and> offlineMode (state_after (toggleTickerVisibility s)) = offlineMode s
     \<and> currentPosition (state_after (toggleTickerVisibility s)) = currentPosition s
     \<and> tickerList (state_after (toggleTickerVisibility s)) = tickerList s
     \<and> animationId (state_after (toggleTickerVisibility s)) = animationId s
     \<and> frames (state_after (toggleTickerVisibility s)) = frames s
     \<and> currentPosition (animate w (state_after (toggleTickerVisibility s)))
         = currentPosition (animate w s)
     \<and> frames (animate w (state_after (toggleTickerVisibility s))) = frames (animate w s)"
  by (simp add: toggleTickerVisibility_def Let_def animate_def requestAnimationFrame_def)

theorem toggle_flips_one_bit_witness:
  "attached showing_widget
   \<and> contentHidden (state_after (toggleTickerVisibility showing_widget))
   \<and> \<not> contentHidden (state_after (toggleTickerVisibility
          (state_after (toggleTickerVisibility showing_widget))))
   \<and> headlines (state_after (toggleTickerVisibility showing_widget)) = [sample_headline]
   \<and> frames (state_after (toggleTickerVisibility showing_widget)) = [1]"
proof -
  have a: "attached showing_widget" by code_simp
  have b: "\<not> contentHidden showing_widget" by code_simp
  have c: "headlines showing_widget = [sample_headline]" by code_simp
  have d: "frames showing_widget = [1]" by code_simp
  have e: "attached (state_after (toggleTickerVisibility showing_widget))" by code_simp
  from toggle_flips_one_bit [OF a] toggle_flips_one_bit [OF e]
  show ?thesis
    by (simp add: a b c d)
qed

subsection \<open>Animation\<close>



lemma animate_position:
  "currentPosition (animate w s) =
     (if isPaused s then currentPosition s
      else if \<bar>currentPosition s - speed s / 60\<bar> \<ge> of_nat w / 2 then 0
      else currentPosition s - speed s / 60)"
  by (simp add: animate_def requestAnimationFrame_def Let_def)

text \<open>
  At \<open>speed = 60\<close> the step is one pixel: from an integer position every position of the
  loop is an integer again.
\<close>

lemma animate_integral:
  "speed s = 60 \<Longrightarrow> currentPosition s \<in> \<int> \<Longrightarrow> currentPosition (animate w s) \<in> \<int>"
  by (simp add: animate_position)





subsection \<open>Destruction\<close>

lemma init_loop_scheduled: "0 < handle \<Longrightarrow> loop_scheduled (init opts stored handle w)"
  by (simp add: init_def setInterval_def startAnimation_def truthy_def loadHeadlines_start_def
        constructed_def animate_def requestAnimationFrame_def loop_scheduled_def Let_def)

lemma run_frame_loop_scheduled: "loop_scheduled s \<Longrightarrow> loop_scheduled (run_frame h w s)"
  by (auto simp add: loop_scheduled_def run_frame_def animate_def requestAnimationFrame_def
        Let_def split: option.splits)

text \<open>
  With the loop scheduled, \<open>destroy\<close> cancels the one pending frame: no callback is left
  for the browser to run.
\<close>

lemma destroy_cancels_frame:
  "loop_scheduled s \<Longrightarrow> frames (destroy s) = [] \<and> run_frame h w (destroy s) = destroy s"
  by (auto simp add: loop_scheduled_def destroy_def cancelAnimationFrame_def run_frame_def
        Let_def split: option.splits)

text \<open>\<open>destroy\<close> does not touch the interval, whose handle the widget never kept.\<close>

lemma destroy_refreshTimer: "refreshTimer (destroy s) = refreshTimer s"
  by (simp add: destroy_def cancelAnimationFrame_def Let_def split: option.split)

subsection \<open>What the events keep\<close>

lemma renderHeadlines_selector:
  "currentServiceIndex (renderHeadlines now s) = currentServiceIndex s
   \<and> currentService (renderHeadlines now s) = currentService s
   \<and> attached (renderHeadlines now s) = attached s"
  by (simp add: renderHeadlines_def saveToCache_def Let_def)

lemma settle_selector:
  "currentServiceIndex (loadHeadlines_settle r now s) = currentServiceIndex s
   \<and> currentService (loadHeadlines_settle r now s) = currentService s
   \<and> attached (loadHeadlines_settle r now s) = attached s"
  by (simp add: loadHeadlines_settle_def loadFromCache_def renderHeadlines_selector Let_def
        split: option.split cache_entry.split)

lemma dispatch_selector_consistent:
  assumes inv: "selector_consistent s"
  shows "selector_consistent (dispatch e s)"
proof (cases e)
  case (FetchSettles r now)
  then show ?thesis using inv by (simp add: selector_consistent_def settle_selector)
qed (use inv in \<open>auto simp add: selector_consistent_def run_frame_def animate_def requestAnimationFrame_def
      interval_fires_def loadHeadlines_start_def click_def dblclick_def
      toggleTickerVisibility_def cycleToNextService_def mouseenter_def mouseleave_def
      pause_def resume_def destroy_def cancelAnimationFrame_def refresh_def setSpeed_def
      startAnimation_def Let_def serviceCycle_def split: option.splits\<close>)

lemma init_selector_consistent: "selector_consistent (init opts stored handle w)"
  by (simp add: selector_consistent_def init_def setInterval_def startAnimation_def truthy_def
        loadHeadlines_start_def constructed_def animate_def requestAnimationFrame_def Let_def
        serviceCycle_def)

lemma run_selector_consistent: "selector_consistent s \<Longrightarrow> selector_consistent (run es s)"
  by (induction es arbitrary: s) (simp_all add: dispatch_selector_consistent)

lemma renderHeadlines_loop:
  "frames (renderHeadlines now s) = frames s
   \<and> animationId (renderHeadlines now s) = animationId s
   \<and> refreshTimer (renderHeadlines now s) = refreshTimer s"
  by (simp add: renderHeadlines_def saveToCache_def Let_def)

lemma settle_loop:
  "frames (loadHeadlines_settle r now s) = frames s
   \<and> animationId (loadHeadlines_settle r now s) = animationId s
   \<and> refreshTimer (loadHeadlines_settle r now s) = refreshTimer s"
  by (simp add: loadHeadlines_settle_def loadFromCache_def renderHeadlines_loop Let_def
        split: option.split cache_entry.split)

lemma dispatch_stopped:
  assumes inv: "stopped s"
  shows "stopped (dispatch e s)"
proof (cases e)
  case (FetchSettles r now)
  then show ?thesis using inv by (simp add: stopped_def settle_loop)
qed (use inv in \<open>auto simp add: stopped_def truthy_def run_frame_def
      interval_fires_def loadHeadlines_start_def click_def dblclick_def
      toggleTickerVisibility_def cycleToNextService_def mouseenter_def mouseleave_def
      pause_def resume_def destroy_def cancelAnimationFrame_def refresh_def setSpeed_def
      startAnimation_def Let_def split: option.splits\<close>)

lemma run_stopped: "stopped s \<Longrightarrow> stopped (run es s)"
  by (induction es arbitrary: s) (simp_all add: dispatch_stopped)

lemma destroy_stopped: "loop_scheduled s \<Longrightarrow> stopped (destroy s)"
  by (auto simp add: loop_scheduled_def stopped_def destroy_def cancelAnimationFrame_def
        truthy_def Let_def split: option.splits)

lemma stopped_frame: "stopped s \<Longrightarrow> dispatch (AnimationFrame h w) s = s"
  by (simp add: stopped_def run_frame_def)

lemma dispatch_refreshTimer:
  assumes inv: "refreshTimer s"
  shows "refreshTimer (dispatch e s)"
proof (cases e)
  case (FetchSettles r now)
  then show ?thesis using inv by (simp add: settle_loop)
qed (use inv in \<open>auto simp add: run_frame_def animate_def requestAnimationFrame_def
      interval_fires_def loadHeadlines_start_def click_def dblclick_def
      toggleTickerVisibility_def cycleToNextService_def mouseenter_def mouseleave_def
      pause_def resume_def destroy_def cancelAnimationFrame_def refresh_def setSpeed_def
      startAnimation_def Let_def split: option.splits\<close>)

lemma run_refreshTimer: "refreshTimer s \<Longrightarrow> refreshTimer (run es s)"
  by (induction es arbitrary: s) (simp_all add: dispatch_refreshTimer)

lemma renderHeadlines_snapshot_nonempty:
  "snapshot_nonempty s \<Longrightarrow> snapshot_nonempty (renderHeadlines now s)"
  by (simp add: snapshot_nonempty_def renderHeadlines_def saveToCache_def Let_def)

lemma settle_snapshot_nonempty:
  "snapshot_nonempty s \<Longrightarrow> snapshot_nonempty (loadHeadlines_settle r now s)"
proof (cases "fetched r")
  case None
  assume inv: "snapshot_nonempty s"
  let ?s2 = "s\<lparr>offlineMode := True, offlineBadge := True\<rparr>"
  have s2: "snapshot_nonempty ?s2" using inv by (simp add: snapshot_nonempty_def)
  have "snapshot_nonempty (loadFromCache now ?s2)"
  proof (cases "cache s")
    case (Snapshot hs t)
    have "snapshot_nonempty (?s2\<lparr>headlines := hs\<rparr>)"
      using inv by (simp add: snapshot_nonempty_def)
    then have "snapshot_nonempty (renderHeadlines now (?s2\<lparr>headlines := hs\<rparr>))"
      by (rule renderHeadlines_snapshot_nonempty)
    then show ?thesis using s2 Snapshot by (simp add: loadFromCache_def)
  qed (use s2 in \<open>simp_all add: loadFromCache_def\<close>)
  then show ?thesis using None by (simp add: loadHeadlines_settle_def)
next
  case (Some hs)
  assume inv: "snapshot_nonempty s"
  let ?s3 = "s\<lparr>headlines := take (maxHeadlines s) hs, offlineMode := False,
                 offlineBadge := False\<rparr>"
  have "snapshot_nonempty ?s3" using inv by (simp add: snapshot_nonempty_def)
  then have "snapshot_nonempty (renderHeadlines now ?s3)"
    by (rule renderHeadlines_snapshot_nonempty)
  then show ?thesis using Some by (simp add: loadHeadlines_settle_def snapshot_nonempty_def)
qed

lemma dispatch_snapshot_nonempty:
  assumes inv: "snapshot_nonempty s" and own: "own_event e"
  shows "snapshot_nonempty (dispatch e s)"
proof (cases e)
  case (FetchSettles r now)
  then show ?thesis using inv by (simp add: settle_snapshot_nonempty)
qed (use inv own in \<open>auto simp add: snapshot_nonempty_def run_frame_def animate_def
      requestAnimationFrame_def interval_fires_def loadHeadlines_start_def click_def dblclick_def
      toggleTickerVisibility_def cycleToNextService_def mouseenter_def mouseleave_def
      pause_def resume_def destroy_def cancelAnimationFrame_def refresh_def setSpeed_def
      startAnimation_def Let_def split: option.splits\<close>)

subsection \<open>After destroy\<close>

text \<open>
  Once \<open>destroy\<close> has cancelled the pending frame, whatever happens later, a frame
  callback never runs again.
\<close>

lemma animation_stays_stopped:
  "loop_scheduled s \<Longrightarrow>
     dispatch (AnimationFrame h w) (run es (destroy s)) = run es (destroy s)"
  by (intro stopped_frame run_stopped destroy_stopped)

text \<open>
  The interval outlives \<open>destroy\<close>: whatever happens later, when it fires,
  \<open>loadHeadlines\<close> passes one more URL to \<^verbatim>\<open>fetch\<close>.
\<close>

lemma refresh_continues_after_destroy:
  "refreshTimer s \<Longrightarrow>
     requests (dispatch IntervalFires (run es (destroy s)))
       = requests (run es (destroy s)) @ [request_url (run es (destroy s))]"
proof -
  assume "refreshTimer s"
  then have "refreshTimer (destroy s)" by (simp add: destroy_refreshTimer)
  then have "refreshTimer (run es (destroy s))" by (rule run_refreshTimer)
  then show ?thesis by (simp add: interval_fires_def loadHeadlines_start_def)
qed

text \<open>
  Claim C2. After \<open>destroy\<close> no animation step runs and the 5-minute refresh timer is
  cleared. On the freshly built widget the first half holds and the second does not:
  after \<open>destroy\<close> no frame is pending and the callback with the cancelled handle does
  not run, but the interval is still registered, and when it fires \<open>loadHeadlines\<close>
  issues a second request.
\<close>

theorem destroy_leaves_refresh_timer:
  "frames (destroy fresh_widget) = []
   \<and> dispatch (AnimationFrame 1 1000) (destroy fresh_widget) = destroy fresh_widget
   \<and> refreshTimer (destroy fresh_widget)
   \<and> requests (destroy fresh_widget) = [''/api/news?service=sports'']
   \<and> requests (dispatch IntervalFires (destroy fresh_widget))
        = [''/api/news?service=sports'', ''/api/news?service=sports'']"
  by code_simp

subsection \<open>Query filter of the news endpoint\<close>

lemma same_letter_all2: "list_all2 same_letter xs ys = (toLowerCase xs = toLowerCase ys)"
proof (induction xs arbitrary: ys)
  case Nil
  then show ?case by (simp add: toLowerCase_def)
next
  case (Cons x xs)
  then show ?case
    by (cases ys) (auto simp: toLowerCase_def same_letter_def)
qed

text \<open>The test of the handler is the case-insensitive substring match.\<close>

lemma string_includes_ci:
  "string_includes (toLowerCase str) (toLowerCase q) = ci_substring q str"
  by (simp add: string_includes_def ci_substring_def same_letter_all2 list_ex_iff)
     (simp add: toLowerCase_def take_map drop_map)

text \<open>
  Claim C9. For every request with a non-empty \<open>q\<close> for which the source selection
  yields a list, the response is that list filtered, in order, to the records whose
  title or source contains \<open>q\<close> as a case-insensitive substring.
\<close>

theorem query_filter:
  "select_source ld dflt sp = Some hs \<Longrightarrow> q \<noteq> [] \<Longrightarrow>
     news_handler ld dflt sp (Some q)
       = Json (filter (\<lambda>h. ci_substring q (title h) \<or> ci_substring q (source h)) hs)"
  by (simp add: news_handler_def string_includes_ci)

theorem query_filter_witness:
  "select_source (\<lambda>f. if f = ''news-sports.txt''
                       then Some [sample_headline,
                                  \<lparr>source = ''Met'', title = ''Rain'', url = ''u2'', ts = 5\<rparr>,
                                  \<lparr>source = ''AT1'', title = ''Sun'', url = ''u3'', ts = 6\<rparr>]
                       else None) None (Some ''sports'')
     = Some [sample_headline,
             \<lparr>source = ''Met'', title = ''Rain'', url = ''u2'', ts = 5\<rparr>,
             \<lparr>source = ''AT1'', title = ''Sun'', url = ''u3'', ts = 6\<rparr>]
   \<and> ''t1'' \<noteq> []
   \<and> news_handler (\<lambda>f. if f = ''news-sports.txt''
                       then Some [sample_headline,
                                  \<lparr>source = ''Met'', title = ''Rain'', url = ''u2'', ts = 5\<rparr>,
                                  \<lparr>source = ''AT1'', title = ''Sun'', url = ''u3'', ts = 6\<rparr>]
                       else None) None (Some ''sports'') (Some ''t1'')
     = Json [sample_headline, \<lparr>source = ''AT1'', title = ''Sun'', url = ''u3'', ts = 6\<rparr>]"
proof -
  let ?hs = "[sample_headline,
              \<lparr>source = ''Met'', title = ''Rain'', url = ''u2'', ts = 5\<rparr>,
              \<lparr>source = ''AT1'', title = ''Sun'', url = ''u3'', ts = 6\<rparr>]"
  let ?ld = "\<lambda>f. if f = ''news-sports.txt'' then Some ?hs else None"
  have a: "select_source ?ld None (Some ''sports'') = Some ?hs"
    by (simp add: select_source_def or_string_def source_file_def)
  have b: "''t1'' \<noteq> []" by simp
  have c: "filter (\<lambda>h. ci_substring ''t1'' (title h) \<or> ci_substring ''t1'' (source h)) ?hs
             = [sample_headline, \<lparr>source = ''AT1'', title = ''Sun'', url = ''u3'', ts = 6\<rparr>]"
    by code_simp
  from query_filter [OF a b] show ?thesis
    by (simp only: a c) simp
qed

end
